theory Spec2Isabelle
  imports Main
begin

section \<open>The editor client: VisualizationEditor.tsx\<close>

text \<open>
  The component is a React function component. Its seven \<open>useState\<close> cells are the
  fields of one record, each handler is a function from the state to the next state, and
  what the component draws is a function of the state. TypeScript's types are erased when
  the program runs: \<open>event.target.value as keyof SampleCodes\<close> checks nothing, so
  \<open>language\<close> and \<open>vizType\<close> are modelled as the strings they are at run time, and
  a property lookup that finds nothing gives \<open>undefined\<close>, modelled as \<open>None\<close>.
  The effect that revokes an object address when the visualization changes writes to no
  state cell and is left out, and so is the styling.
\<close>

subsection \<open>SAMPLE_CODES\<close>

text \<open>
  A template literal spanning several source lines is the text of its lines separated by
  line feeds, with no line feed after the last one.
\<close>

fun template :: "string list \<Rightarrow> string" where
  "template [] = []"
| "template [l] = l"
| "template (l # ls) = l @ CHR 0x0A # template ls"

definition python_static :: string where
  \<open>python_static = template
     [''import numpy as np'',
      '''',
      ''x = np.linspace(0, 10, 100)'',
      ''y = np.sin(x)'',
      '''',
      ''plt.figure(figsize=(10, 6))'',
      ''plt.plot(x, y, 'b-', label='sin(x)')'',
      ''plt.title('Static Plot Example')'',
      ''plt.xlabel('x')'',
      ''plt.ylabel('sin(x)')'',
      ''plt.grid(True)'',
      ''plt.legend()'']\<close>

definition python_interactive :: string where
  \<open>python_interactive = template
     [''import numpy as np'',
      '''',
      ''x = np.linspace(0, 10, 100)'',
      ''y = np.sin(x)'',
      '''',
      ''fig = px.line(x=x, y=y, title='Interactive Plot Example')'',
      ''fig.update_layout('',
      ''    xaxis_title='x','',
      ''    yaxis_title='sin(x)','',
      ''    showlegend=True'',
      '')'']\<close>

definition python_3d :: string where
  \<open>python_3d = template
     [''import numpy as np'',
      '''',
      ''x = np.linspace(-5, 5, 50)'',
      ''y = np.linspace(-5, 5, 50)'',
      ''X, Y = np.meshgrid(x, y)'',
      ''Z = np.sin(np.sqrt(X**2 + Y**2))'',
      '''',
      ''fig = go.Figure(data=[go.Surface(z=Z, x=x, y=y)])'',
      ''fig.update_layout('',
      ''    title='3D Surface Plot','',
      ''    scene=dict('',
      ''        xaxis_title='X','',
      ''        yaxis_title='Y','',
      ''        zaxis_title='Z'' @ [CHR 0x27],
      ''    )'',
      '')'']\<close>

definition r_static :: string where
  \<open>r_static = template
     [''x <- seq(0, 10, length.out = 100)'',
      ''y <- sin(x)'',
      ''df <- data.frame(x = x, y = y)'',
      '''',
      ''p <- ggplot(df, aes(x = x, y = y)) +'',
      ''  geom_line(color = "blue") +'',
      ''  labs(title = "Static Plot Example",'',
      ''       x = "x",'',
      ''       y = "sin(x)") +'',
      ''  theme_minimal()'']\<close>

definition r_interactive :: string where
  \<open>r_interactive = template
     [''x <- seq(0, 10, length.out = 100)'',
      ''y <- sin(x)'',
      ''df <- data.frame(x = x, y = y)'',
      '''',
      ''p <- plot_ly(data = df, x = ~x, y = ~y, type = 'scatter', mode = 'lines')'',
      ''p$x$layout <- list('',
      ''  title = 'Interactive Plot Example','',
      ''  xaxis = list(title = 'x'),'',
      ''  yaxis = list(title = 'sin(x)'),'',
      ''  width = 800,'',
      ''  height = 600'',
      '')'']\<close>

definition r_3d :: string where
  \<open>r_3d = template
     [''library(plotly)'',
      '''',
      ''x <- seq(-5, 5, length.out = 50)'',
      ''y <- seq(-5, 5, length.out = 50)'',
      ''grid <- expand.grid(x = x, y = y)'',
      ''grid$z <- sin(sqrt(grid$x^2 + grid$y^2))'',
      '''',
      ''z_matrix <- matrix(grid$z, nrow = 50, ncol = 50)'',
      ''x_vec <- unique(grid$x)'',
      ''y_vec <- unique(grid$y)'',
      '''',
      ''p <- plot_ly(type = 'surface','',
      ''            x = x_vec,'',
      ''            y = y_vec,'',
      ''            z = z_matrix,'',
      ''            colorscale = 'Viridis')'',
      ''p$x$layout <- list('',
      ''  title = '3D Surface Plot','',
      ''  scene = list('',
      ''    xaxis = list(title = 'X'),'',
      ''    yaxis = list(title = 'Y'),'',
      ''    zaxis = list(title = 'Z')'',
      ''  ),'',
      ''  width = 800,'',
      ''  height = 600'',
      '')'']\<close>

type_synonym js_object = "(string \<times> string) list"

definition SAMPLE_CODES :: "(string \<times> js_object) list" where
  "SAMPLE_CODES =
     [(''python'',
         [(''static'', python_static),
          (''interactive'', python_interactive),
          (''3d'', python_3d)]),
      (''r'',
         [(''static'', r_static),
          (''interactive'', r_interactive),
          (''3d'', r_3d)])]"

datatype js_error = TypeError

text \<open>
  \<open>SAMPLE_CODES[l][v]\<close>. Reading a property of \<open>undefined\<close> throws a TypeError, so an
  unknown first key is an error; an unknown second key is the value \<open>undefined\<close>. Only
  the object's own keys are modelled: for a name inherited from \<open>Object.prototype\<close>
  (such as \<open>constructor\<close> or \<open>toString\<close>) the program reads that inherited value
  where this lookup finds nothing. No menu offers such a name.
\<close>

definition sample :: "string \<Rightarrow> string \<Rightarrow> js_error + string option" where
  "sample l v =
     (case map_of SAMPLE_CODES l of
        None \<Rightarrow> Inl TypeError
      | Some obj \<Rightarrow> Inr (map_of obj v))"

subsection \<open>Component state\<close>

record state =
  language :: string
  vizType :: string
  code :: "string option"
  visualization :: string
  visualizationType :: string
  error :: string
  loading :: bool

text \<open>The first render: the initial values handed to \<open>useState\<close>.\<close>

definition mount :: "js_error + state" where
  "mount =
     (let language0 = ''python''; vizType0 = ''static''
      in case sample language0 vizType0 of
           Inl e \<Rightarrow> Inl e
         | Inr c \<Rightarrow>
             Inr \<lparr>language = language0, vizType = vizType0, code = c,
                  visualization = [], visualizationType = [], error = [],
                  loading = False\<rparr>)"

definition initial_state :: state where
  "initial_state =
     \<lparr>language = ''python'', vizType = ''static'', code = Some python_static,
      visualization = [], visualizationType = [], error = [], loading = False\<rparr>"

subsection \<open>Handlers of the two menus and of the editor\<close>

text \<open>
  A handler that throws returns \<open>Inl\<close>; what React does with the update queued before the
  throw is not modelled.
\<close>

definition handleLanguageChange :: "string \<Rightarrow> state \<Rightarrow> js_error + state" where
  "handleLanguageChange newLanguage s =
     (case sample newLanguage (vizType s) of
        Inl e \<Rightarrow> Inl e
      | Inr c \<Rightarrow> Inr (s\<lparr>language := newLanguage, code := c\<rparr>))"

definition handleVizTypeChange :: "string \<Rightarrow> state \<Rightarrow> js_error + state" where
  "handleVizTypeChange newType s =
     (case sample (language s) newType of
        Inl e \<Rightarrow> Inl e
      | Inr c \<Rightarrow> Inr (s\<lparr>vizType := newType, code := c\<rparr>))"

definition handleCodeChange :: "string option \<Rightarrow> state \<Rightarrow> state" where
  "handleCodeChange v s = (case v of None \<Rightarrow> s | Some t \<Rightarrow> s\<lparr>code := Some t\<rparr>)"

subsection \<open>The request and its outcomes\<close>

text \<open>
  The body handed to \<open>axios.post\<close> is an object literal with the three keys in this
  order; a key whose value is \<open>undefined\<close> is left out when the object is serialised.
\<close>

record http_request =
  verb :: string
  url :: string
  body :: js_object

definition post_request :: "state \<Rightarrow> http_request" where
  "post_request s =
     \<lparr>verb = ''POST'',
      url = ''http://localhost:8000/generate-visualization'',
      body = (case code s of None \<Rightarrow> [] | Some c \<Rightarrow> [(''code'', c)])
             @ [(''language'', language s), (''viz_type'', vizType s)]\<rparr>"

text \<open>
  The promise either resolves with a response whose data has the declared interface
  \<open>VisualizationResponse\<close>, or rejects with an error object that is read through
  optional chaining: each of \<open>response\<close>, \<open>data\<close> and \<open>detail\<close> may be missing.
\<close>

record VisualizationResponse =
  type :: string
  content :: string

record error_data =
  detail :: "string option"

record error_response =
  data :: "error_data option"

record axios_error =
  response :: "error_response option"

datatype post_outcome = Resolved VisualizationResponse | Rejected axios_error

text \<open>\<open>err.response?.data?.detail\<close>\<close>

definition err_detail :: "axios_error \<Rightarrow> string option" where
  "err_detail err =
     (case response err of
        None \<Rightarrow> None
      | Some r \<Rightarrow> (case data r of None \<Rightarrow> None | Some d \<Rightarrow> detail d))"

text \<open>\<open>x || fallback\<close> on a string or \<open>undefined\<close>: the empty string is falsy too.\<close>

definition js_or :: "string option \<Rightarrow> string \<Rightarrow> string" where
  "js_or x fallback =
     (case x of None \<Rightarrow> fallback | Some m \<Rightarrow> (if m = [] then fallback else m))"

subsection \<open>generateVisualization\<close>

text \<open>The four updates made before the request is issued.\<close>

definition generate_begin :: "state \<Rightarrow> state" where
  "generate_begin s =
     s\<lparr>loading := True, error := [], visualization := [], visualizationType := []\<rparr>"

text \<open>
  The guarded block after the promise settles: the three branches on \<open>response.data.type\<close>,
  the handler of a thrown error, and the final reset of the loading flag.
\<close>

definition generate_settle :: "post_outcome \<Rightarrow> state \<Rightarrow> state" where
  "generate_settle outcome s =
     (case outcome of
        Resolved r \<Rightarrow>
          (if type r = ''image'' then
             s\<lparr>visualizationType := ''image'', visualization := content r\<rparr>
           else if type r = ''html'' then
             s\<lparr>visualizationType := ''html'', visualization := content r\<rparr>
           else s\<lparr>error := ''No visualization was generated''\<rparr>)
      | Rejected err \<Rightarrow> s\<lparr>error := js_or (err_detail err) ''An error occurred''\<rparr>)
     \<lparr>loading := False\<rparr>"

text \<open>
  One whole call. The network and the server are the parameter \<open>net\<close>, which answers a
  request with an outcome. The result is the list of requests sent and the state once the
  call has completed. The request is built from the values of the render in which the
  button was clicked.
\<close>

definition generateVisualization ::
  "(http_request \<Rightarrow> post_outcome) \<Rightarrow> state \<Rightarrow> http_request list \<times> state" where
  "generateVisualization net s =
     (let s1 = generate_begin s;
          req = post_request s;
          outcome = net req
      in ([req], generate_settle outcome s1))"

subsection \<open>What the component draws\<close>

datatype element =
  Img string string
| IFrame string string

record view =
  language_value :: string
  language_items :: "(string \<times> string) list"
  vizType_value :: string
  vizType_items :: "(string \<times> string) list"
  button_disabled :: bool
  button_label :: string
  editor_value :: "string option"
  error_message :: "string option"
  visualization_panel :: "element option"

text \<open>
  \<open>Img src alt\<close> and \<open>IFrame srcDoc sandbox\<close>. The two conditional blocks
  \<open>error && ...\<close> and \<open>visualization && ...\<close> draw nothing for an empty string.
\<close>

definition render :: "state \<Rightarrow> view" where
  "render s =
     \<lparr>language_value = language s,
      language_items = [(''python'', ''Python''), (''r'', ''R'')],
      vizType_value = vizType s,
      vizType_items =
        [(''static'', ''Static''), (''interactive'', ''Interactive''), (''3d'', ''3D'')],
      button_disabled = loading s,
      button_label = (if loading s then ''Generating...'' else ''Generate Visualization''),
      editor_value = code s,
      error_message = (if error s = [] then None else Some (error s)),
      visualization_panel =
        (if visualization s = [] then None
         else if visualizationType s = ''image'' then
           Some (Img (''data:image/png;base64,'' @ visualization s) ''Visualization'')
         else
           Some (IFrame (visualization s)
                   ''allow-scripts allow-same-origin allow-popups''))\<rparr>"

subsection \<open>Runs of the component\<close>

text \<open>
  What can happen to a mounted component: a menu reports one of the values of its items,
  the editor reports a change, the button is clicked (it is disabled while \<open>loading\<close>),
  or the request in flight settles. A run carries the state and the requests sent so far.
  An event that the drawn component cannot produce ends the run with \<open>None\<close>.
\<close>

datatype event =
  ChangeLanguage string
| ChangeVizType string
| EditCode "string option"
| ClickGenerate
| RequestSettled post_outcome

fun step :: "event \<Rightarrow> state \<times> http_request list \<Rightarrow> (state \<times> http_request list) option" where
  "step (ChangeLanguage v) (s, sent) =
     (if v \<in> fst ` set (language_items (render s)) then
        (case handleLanguageChange v s of Inl e \<Rightarrow> None | Inr s' \<Rightarrow> Some (s', sent))
      else None)"
| "step (ChangeVizType v) (s, sent) =
     (if v \<in> fst ` set (vizType_items (render s)) then
        (case handleVizTypeChange v s of Inl e \<Rightarrow> None | Inr s' \<Rightarrow> Some (s', sent))
      else None)"
| "step (EditCode v) (s, sent) = Some (handleCodeChange v s, sent)"
| "step ClickGenerate (s, sent) =
     (if button_disabled (render s) then None
      else Some (generate_begin s, sent @ [post_request s]))"
| "step (RequestSettled outcome) (s, sent) =
     (if loading s then Some (generate_settle outcome s, sent) else None)"

fun run :: "event list \<Rightarrow> state \<times> http_request list \<Rightarrow> (state \<times> http_request list) option" where
  "run [] c = Some c"
| "run (ev # evs) c = (case step ev c of None \<Rightarrow> None | Some c' \<Rightarrow> run evs c')"

text \<open>A server that gives every request the same outcome.\<close>

definition always :: "post_outcome \<Rightarrow> http_request \<Rightarrow> post_outcome" where
  "always outcome req = outcome"

subsection \<open>The enumerations of the wire contract\<close>

definition languages :: "string set" where
  "languages = {''python'', ''r''}"

definition vizTypes :: "string set" where
  "vizTypes = {''static'', ''interactive'', ''3d''}"

text \<open>
  The request of section 6 of the specification: a POST to the endpoint whose body has the
  keys \<open>code\<close>, \<open>language\<close> and \<open>viz_type\<close> and no other, with the two enumerated
  fields inside their enumerations.
\<close>

definition wire_contract :: "http_request \<Rightarrow> bool" where
  "wire_contract r =
     (verb r = ''POST'' \<and>
      url r = ''http://localhost:8000'' @ ''/generate-visualization'' \<and>
      map fst (body r) = [''code'', ''language'', ''viz_type''] \<and>
      map_of (body r) ''language'' \<in> Some ` languages \<and>
      map_of (body r) ''viz_type'' \<in> Some ` vizTypes)"

subsection \<open>Invariants of a run\<close>

definition state_ok :: "state \<Rightarrow> bool" where
  "state_ok s = (language s \<in> languages \<and> vizType s \<in> vizTypes \<and> code s \<noteq> None)"

definition idle_or_cleared :: "state \<Rightarrow> bool" where
  "idle_or_cleared s =
     ((error s = [] \<or> visualization s = []) \<and>
      (loading s \<longrightarrow> error s = [] \<and> visualization s = []))"

fun config_ok :: "state \<times> http_request list \<Rightarrow> bool" where
  "config_ok (s, sent) = (state_ok s \<and> idle_or_cleared s \<and> list_all wire_contract sent)"

section \<open>The execution service, from the specification\<close>

text \<open>
  The server is not among the sources: only its client is. The definitions of this section
  follow sections 3, 4, 6 and 7 of the specification. One request is followed from
  validation to the reply; the other requests in progress appear only as the number of
  live workers at admission, and what the worker process did is an input (\<open>worker_fate\<close>),
  since it depends on the user's program, the clock and the memory ceiling. The runtime
  adapter of section 4.2 is not modelled beyond what its epilogue leaves on the artifact
  channel.
\<close>

subsection \<open>Data model\<close>

text \<open>
  Modelled from the spec: the request of section 3, with the fields as they arrive on the
  wire, before validation.
\<close>

record ExecutionRequest =
  request_code :: string
  request_language :: string
  request_vizType :: string

text \<open>Modelled from the spec: the tagged result of section 3 and the kinds of section 7.\<close>

datatype artifact_kind = Image | Html

datatype failure_kind =
  ValidationError
| ExecutionTimeout
| ResourceExceeded
| RuntimeError
| NoOutput
| OutputTooLarge
| InternalError

datatype ExecutionResult =
  Artifact artifact_kind string
| Failure failure_kind string

text \<open>
  Modelled from the spec: the configuration surface of section 6. The per-worker timeout
  and memory ceiling act only through the fate of the worker. The wording of the messages
  that the specification does not fix and the recogniser of error traces are parameters.
\<close>

record config =
  max_code_length :: nat
  max_workers :: nat
  max_artifact_size :: nat
  max_diagnostic_length :: nat
  is_error_trace :: "string \<Rightarrow> bool"
  notice :: "failure_kind \<Rightarrow> string"

subsection \<open>Worker\<close>

text \<open>
  Modelled from the spec: the raw result of a worker (section 4.3), its three channels
  kept apart. The artifact channel holds what the epilogue of section 4.2 wrote: the
  sentinel, image bytes or a document.
\<close>

datatype artifact_channel =
  NoArtifactSentinel
| ImageBytes string
| HtmlDocument string

record raw_result =
  artifact :: artifact_channel
  diagnostics :: string
  exit_status :: int

text \<open>
  Modelled from the spec: how the one worker of a request ended (sections 4.3 and 4.4).
  A worker that exited reports its raw result; a worker that was killed may have left
  partial output behind, which the constructor carries.
\<close>

datatype worker_fate =
  Exited raw_result
| TimedOut raw_result
| MemoryBreach raw_result
| DeadlineFired raw_result
| SpawnFailed

subsection \<open>Output capture and normalizer\<close>

text \<open>
  Modelled from the spec: the base64 encoding of image bytes (section 4.5), three bytes
  to four characters of the standard alphabet, padded with \<open>=\<close>.
\<close>

definition sextet :: "nat \<Rightarrow> char" where
  "sextet n =
     ''ABCDEFGHIJKLMNOPQRSTUVWXYZabcdefghijklmnopqrstuvwxyz0123456789+/'' ! (n mod 64)"

fun base64 :: "string \<Rightarrow> string" where
  "base64 [] = []"
| "base64 [a] =
     (let n = (of_char a :: nat) * 65536
      in [sextet (n div 262144), sextet (n div 4096), CHR ''='', CHR ''=''])"
| "base64 [a, b] =
     (let n = (of_char a :: nat) * 65536 + of_char b * 256
      in [sextet (n div 262144), sextet (n div 4096), sextet (n div 64), CHR ''=''])"
| "base64 (a # b # c # rest) =
     (let n = (of_char a :: nat) * 65536 + of_char b * 256 + of_char c
      in [sextet (n div 262144), sextet (n div 4096), sextet (n div 64), sextet n]
         @ base64 rest)"

text \<open>
  Modelled from the spec: section 4.5, the three rules in the order it gives them, and the
  size bound.
\<close>

definition normalize :: "config \<Rightarrow> raw_result \<Rightarrow> ExecutionResult" where
  "normalize cfg raw =
     (if exit_status raw \<noteq> 0 \<or> is_error_trace cfg (diagnostics raw) then
        Failure RuntimeError (take (max_diagnostic_length cfg) (diagnostics raw))
      else
        (case artifact raw of
           NoArtifactSentinel \<Rightarrow> Failure NoOutput ''No visualization was generated''
         | ImageBytes b \<Rightarrow>
             (if max_artifact_size cfg < length b then
                Failure OutputTooLarge (notice cfg OutputTooLarge)
              else Artifact Image (base64 b))
         | HtmlDocument d \<Rightarrow>
             (if max_artifact_size cfg < length d then
                Failure OutputTooLarge (notice cfg OutputTooLarge)
              else Artifact Html d)))"

subsection \<open>Governor and dispatcher\<close>

text \<open>
  Modelled from the spec: what happens to the process, its scratch directory and the
  governor's slot (sections 4.3 and 4.4), as events.
\<close>

datatype os_event =
  SlotTaken
| Spawned
| Killed
| Reaped
| ScratchRemoved
| SlotReleased

text \<open>
  Modelled from the spec: the lifetime of an admitted worker (sections 4.3 and 4.4), as
  the events that happen before the result is handed back, and the result. A kill is a
  failure whatever the worker had written.
\<close>

fun supervise :: "config \<Rightarrow> worker_fate \<Rightarrow> os_event list \<times> ExecutionResult" where
  "supervise cfg SpawnFailed =
     ([SlotTaken, SlotReleased], Failure InternalError (notice cfg InternalError))"
| "supervise cfg (Exited raw) =
     ([SlotTaken, Spawned, Reaped, ScratchRemoved, SlotReleased], normalize cfg raw)"
| "supervise cfg (TimedOut partial) =
     ([SlotTaken, Spawned, Killed, Reaped, ScratchRemoved, SlotReleased],
      Failure ExecutionTimeout (notice cfg ExecutionTimeout))"
| "supervise cfg (MemoryBreach partial) =
     ([SlotTaken, Spawned, Killed, Reaped, ScratchRemoved, SlotReleased],
      Failure ResourceExceeded (notice cfg ResourceExceeded))"
| "supervise cfg (DeadlineFired partial) =
     ([SlotTaken, Spawned, Killed, Reaped, ScratchRemoved, SlotReleased],
      Failure ExecutionTimeout (notice cfg ExecutionTimeout))"

text \<open>
  Modelled from the spec: the validation of section 4.1, giving the message of the first
  violation. Scenario 3 of section 8 fixes the message for an unknown language.
\<close>

definition validate :: "config \<Rightarrow> ExecutionRequest \<Rightarrow> string option" where
  "validate cfg req =
     (if request_language req \<notin> languages then Some ''Unsupported language''
      else if request_vizType req \<notin> vizTypes then Some (notice cfg ValidationError)
      else if request_code req = [] then Some (notice cfg ValidationError)
      else if max_code_length cfg < length (request_code req) then
        Some (notice cfg ValidationError)
      else None)"

text \<open>
  Modelled from the spec: the dispatcher of section 4.1 with the admission control of
  section 4.4 under the recommended policy (reject when at capacity). \<open>live\<close> is the
  number of workers alive when the request asks for admission.
\<close>

definition dispatch ::
  "config \<Rightarrow> nat \<Rightarrow> worker_fate \<Rightarrow> ExecutionRequest \<Rightarrow> os_event list \<times> ExecutionResult" where
  "dispatch cfg live fate req =
     (case validate cfg req of
        Some message \<Rightarrow> ([], Failure ValidationError message)
      | None \<Rightarrow>
          (if live < max_workers cfg then supervise cfg fate
           else ([], Failure ResourceExceeded (notice cfg ResourceExceeded))))"

subsection \<open>The reply on the wire\<close>

text \<open>
  Modelled from the spec: the two replies of section 6. A success carries a body of the
  shape the client declares as \<open>VisualizationResponse\<close>; a failure carries its status
  class (section 7) and the \<open>detail\<close> string.
\<close>

datatype status_class = ClientError4xx | ServerError5xx

datatype http_reply =
  SuccessReply VisualizationResponse
| FailureReply status_class string

fun kind_name :: "artifact_kind \<Rightarrow> string" where
  "kind_name Image = ''image''"
| "kind_name Html = ''html''"

text \<open>
  Modelled from the spec: sections 6 and 7. An artifact is a success response with its
  type and content; every failure is a response with a status outside 2xx (5xx for an
  internal error, 4xx otherwise) whose body carries the message as \<open>detail\<close>.
\<close>

fun respond :: "ExecutionResult \<Rightarrow> http_reply" where
  "respond (Artifact k c) = SuccessReply \<lparr>type = kind_name k, content = c\<rparr>"
| "respond (Failure k message) =
     FailureReply (if k = InternalError then ServerError5xx else ClientError4xx) message"

text \<open>
  Modelled from the spec: how a reply of section 6 reaches the handler. The client's HTTP
  library (axios with its default status check) resolves the promise for a 2xx status and
  rejects it for any other, with the reply attached to the error as \<open>response\<close>.
\<close>

fun deliver :: "http_reply \<Rightarrow> post_outcome" where
  "deliver (SuccessReply r) = Resolved r"
| "deliver (FailureReply st d) =
     Rejected \<lparr>response = Some \<lparr>data = Some \<lparr>detail = Some d\<rparr>\<rparr>\<rparr>"

subsection \<open>A concrete configuration\<close>

text \<open>
  Values for the parameters, to run the service on examples: a recogniser for the first
  line of a Python traceback or an R error, and one plain message for each kind.
\<close>

definition trace_prefix :: "string \<Rightarrow> bool" where
  "trace_prefix d = (take 9 d = ''Traceback'' \<or> take 5 d = ''Error'')"

fun plain_notice :: "failure_kind \<Rightarrow> string" where
  "plain_notice ValidationError = ''Invalid request''"
| "plain_notice ExecutionTimeout = ''Execution timed out''"
| "plain_notice ResourceExceeded = ''Resource limit exceeded''"
| "plain_notice RuntimeError = ''Runtime error''"
| "plain_notice NoOutput = ''No visualization was generated''"
| "plain_notice OutputTooLarge = ''Output too large''"
| "plain_notice InternalError = ''Internal error''"

definition small_config :: config where
  "small_config =
     \<lparr>max_code_length = 10000, max_workers = 4, max_artifact_size = 1000000,
      max_diagnostic_length = 2000, is_error_trace = trace_prefix,
      notice = plain_notice\<rparr>"

subsection \<open>The lifetime of a request, one step at a time\<close>

text \<open>
  Modelled from the spec: the states of section 4.4 for the one worker of a request, with
  the request's own states before admission and after the result has been handed back.
  While cleaning up, the state holds the result that will be returned.
\<close>

datatype phase =
  Arrived
| Admitted
| Running
| Cleaning ExecutionResult
| Finished

text \<open>
  Modelled from the spec: the operating-system process of section 4.3: not created, alive,
  dead but not yet reaped, or reaped.
\<close>

datatype process = NoProcess | Live | Dead | Gone

text \<open>
  Modelled from the spec: what a request holds while it is served: the process, its
  scratch directory, the governor's slot, the number of processes spawned for it, the
  results handed back to the caller and the events so far.
\<close>

record lifecycle =
  phase :: phase
  proc :: process
  scratch :: bool
  slot :: bool
  spawns :: nat
  returned :: "ExecutionResult list"
  trace :: "os_event list"

text \<open>
  Modelled from the spec: a request as it arrives, with no process, no scratch directory
  and no slot (section 3).
\<close>

definition arrival :: lifecycle where
  "arrival =
     \<lparr>phase = Arrived, proc = NoProcess, scratch = False, slot = False, spawns = 0,
      returned = [], trace = []\<rparr>"

text \<open>
  Modelled from the spec: what can happen while a request is served (sections 4.1, 4.3,
  4.4 and 5), in any order and any number of times: the dispatcher gets a turn, the spawn
  succeeds or fails, the process exits by itself (cleanly or crashing) with its raw
  result, the wall-clock ceiling or the memory ceiling of the worker is hit, or the
  deadline of the request fires.
\<close>

datatype signal =
  Turn
| SpawnOk
| SpawnError
| ProcessExit raw_result
| WallClock
| MemoryCeiling
| Deadline

text \<open>Modelled from the spec: the failure of a timeout or of the deadline (section 7).\<close>

definition timeout_failure :: "config \<Rightarrow> ExecutionResult" where
  "timeout_failure cfg = Failure ExecutionTimeout (notice cfg ExecutionTimeout)"

text \<open>
  Modelled from the spec: one step of the dispatcher and governor. Validation and
  admission come first, and a request that fails either is answered at once, before any
  process exists (section 4.1); a worker is only ever spawned from \<open>Admitted\<close>;
  a ceiling or the deadline kills a running worker and its output is dropped (sections
  4.3 and 5); the deadline turns whatever was pending into a timeout (section 4.1); the
  process is reaped, the scratch directory removed and the slot released before the
  result is handed back (sections 3 and 4.3); after that nothing has any effect.
\<close>

fun on_arrived ::
  "config \<Rightarrow> nat \<Rightarrow> ExecutionRequest \<Rightarrow> signal \<Rightarrow> lifecycle \<Rightarrow> lifecycle" where
  "on_arrived cfg live req Turn st =
     (case validate cfg req of
        Some message \<Rightarrow>
          st\<lparr>phase := Finished,
             returned := returned st @ [Failure ValidationError message]\<rparr>
      | None \<Rightarrow>
          (if live < max_workers cfg then
             st\<lparr>phase := Admitted, slot := True, trace := trace st @ [SlotTaken]\<rparr>
           else
             st\<lparr>phase := Finished,
                returned :=
                  returned st @ [Failure ResourceExceeded (notice cfg ResourceExceeded)]\<rparr>))"
| "on_arrived cfg live req Deadline st = st\<lparr>phase := Cleaning (timeout_failure cfg)\<rparr>"
| "on_arrived cfg live req sig st = st"

fun on_admitted :: "config \<Rightarrow> signal \<Rightarrow> lifecycle \<Rightarrow> lifecycle" where
  "on_admitted cfg SpawnOk st =
     st\<lparr>phase := Running, proc := Live, scratch := True, spawns := Suc (spawns st),
        trace := trace st @ [Spawned]\<rparr>"
| "on_admitted cfg SpawnError st =
     st\<lparr>phase := Cleaning (Failure InternalError (notice cfg InternalError))\<rparr>"
| "on_admitted cfg Deadline st = st\<lparr>phase := Cleaning (timeout_failure cfg)\<rparr>"
| "on_admitted cfg sig st = st"

fun on_running :: "config \<Rightarrow> signal \<Rightarrow> lifecycle \<Rightarrow> lifecycle" where
  "on_running cfg (ProcessExit raw) st =
     st\<lparr>phase := Cleaning (normalize cfg raw), proc := Dead\<rparr>"
| "on_running cfg WallClock st =
     st\<lparr>phase := Cleaning (timeout_failure cfg), proc := Dead,
        trace := trace st @ [Killed]\<rparr>"
| "on_running cfg MemoryCeiling st =
     st\<lparr>phase := Cleaning (Failure ResourceExceeded (notice cfg ResourceExceeded)),
        proc := Dead, trace := trace st @ [Killed]\<rparr>"
| "on_running cfg Deadline st =
     st\<lparr>phase := Cleaning (timeout_failure cfg), proc := Dead,
        trace := trace st @ [Killed]\<rparr>"
| "on_running cfg sig st = st"

fun on_cleaning :: "config \<Rightarrow> ExecutionResult \<Rightarrow> signal \<Rightarrow> lifecycle \<Rightarrow> lifecycle" where
  "on_cleaning cfg verdict Turn st =
     (if proc st = Dead then st\<lparr>proc := Gone, trace := trace st @ [Reaped]\<rparr>
      else if scratch st then st\<lparr>scratch := False, trace := trace st @ [ScratchRemoved]\<rparr>
      else if slot st then st\<lparr>slot := False, trace := trace st @ [SlotReleased]\<rparr>
      else st\<lparr>phase := Finished, returned := returned st @ [verdict]\<rparr>)"
| "on_cleaning cfg verdict Deadline st = st\<lparr>phase := Cleaning (timeout_failure cfg)\<rparr>"
| "on_cleaning cfg verdict sig st = st"

text \<open>Modelled from the spec: the step, by the phase the request is in.\<close>

definition react ::
  "config \<Rightarrow> nat \<Rightarrow> ExecutionRequest \<Rightarrow> signal \<Rightarrow> lifecycle \<Rightarrow> lifecycle" where
  "react cfg live req sig st =
     (case phase st of
        Arrived \<Rightarrow> on_arrived cfg live req sig st
      | Admitted \<Rightarrow> on_admitted cfg sig st
      | Running \<Rightarrow> on_running cfg sig st
      | Cleaning verdict \<Rightarrow> on_cleaning cfg verdict sig st
      | Finished \<Rightarrow> st)"

text \<open>Modelled from the spec: a run, any list of signals taken from left to right.\<close>

fun drive ::
  "config \<Rightarrow> nat \<Rightarrow> ExecutionRequest \<Rightarrow> signal list \<Rightarrow> lifecycle \<Rightarrow> lifecycle" where
  "drive cfg live req [] st = st"
| "drive cfg live req (sig # sigs) st = drive cfg live req sigs (react cfg live req sig st)"

text \<open>
  Modelled from the spec: the order of events when nothing races, for each fate of the
  worker: admission, the spawn, the end of the worker, and four turns to clean up and
  hand the result back.
\<close>

fun schedule :: "worker_fate \<Rightarrow> signal list" where
  "schedule (Exited raw) = [Turn, SpawnOk, ProcessExit raw, Turn, Turn, Turn, Turn]"
| "schedule (TimedOut partial) = [Turn, SpawnOk, WallClock, Turn, Turn, Turn, Turn]"
| "schedule (MemoryBreach partial) = [Turn, SpawnOk, MemoryCeiling, Turn, Turn, Turn, Turn]"
| "schedule (DeadlineFired partial) = [Turn, SpawnOk, Deadline, Turn, Turn, Turn, Turn]"
| "schedule SpawnFailed = [Turn, SpawnError, Turn, Turn, Turn, Turn]"

text \<open>
  The invariant of the lifetime: at most one spawn and at most one result, and for each
  phase the resources that can be held in it.
\<close>

definition lifecycle_ok :: "lifecycle \<Rightarrow> bool" where
  "lifecycle_ok st =
     (spawns st = count_list (trace st) Spawned \<and>
      (case phase st of
         Arrived \<Rightarrow>
           proc st = NoProcess \<and> \<not> scratch st \<and> \<not> slot st \<and> spawns st = 0 \<and>
           returned st = []
       | Admitted \<Rightarrow>
           proc st = NoProcess \<and> \<not> scratch st \<and> slot st \<and> spawns st = 0 \<and>
           returned st = []
       | Running \<Rightarrow>
           proc st = Live \<and> scratch st \<and> slot st \<and> spawns st = 1 \<and> returned st = []
       | Cleaning verdict \<Rightarrow> proc st \<noteq> Live \<and> spawns st \<le> 1 \<and> returned st = []
       | Finished \<Rightarrow>
           proc st \<noteq> Live \<and> proc st \<noteq> Dead \<and> \<not> scratch st \<and> \<not> slot st \<and>
           spawns st \<le> 1 \<and> length (returned st) = 1))"

text \<open>The request is past its worker: it is cleaning up or has finished.\<close>

definition stopping :: "lifecycle \<Rightarrow> bool" where
  "stopping st = (case phase st of Cleaning v \<Rightarrow> True | Finished \<Rightarrow> True | _ \<Rightarrow> False)"

text \<open>What is still to be reclaimed, and the result still to be handed back.\<close>

definition pending :: "lifecycle \<Rightarrow> nat" where
  "pending st =
     (case phase st of
        Finished \<Rightarrow> 0
      | _ \<Rightarrow> Suc ((if proc st = Dead then 1 else 0) + (if scratch st then 1 else 0) +
                 (if slot st then 1 else 0)))"

section \<open>Facts about the client\<close>

lemma sample_simps:
  "sample ''python'' ''static'' = Inr (Some python_static)"
  "sample ''python'' ''interactive'' = Inr (Some python_interactive)"
  "sample ''python'' ''3d'' = Inr (Some python_3d)"
  "sample ''r'' ''static'' = Inr (Some r_static)"
  "sample ''r'' ''interactive'' = Inr (Some r_interactive)"
  "sample ''r'' ''3d'' = Inr (Some r_3d)"
  by (simp_all add: sample_def SAMPLE_CODES_def)

lemma mount_initial: "mount = Inr initial_state"
  by (simp add: mount_def initial_state_def sample_simps)

lemma sample_defined:
  assumes "l \<in> languages" and "v \<in> vizTypes"
  shows "\<exists>c. sample l v = Inr (Some c)"
  using assms by (auto simp: languages_def vizTypes_def sample_simps)

lemma menu_values:
  "fst ` set (language_items (render s)) = languages"
  "fst ` set (vizType_items (render s)) = vizTypes"
  by (auto simp: render_def languages_def vizTypes_def)

lemma handleLanguageChange_ok:
  assumes "state_ok s" and "v \<in> languages" and "handleLanguageChange v s = Inr s'"
  shows "state_ok s'"
proof -
  from assms(1,2) obtain c where "sample v (vizType s) = Inr (Some c)"
    using sample_defined by (auto simp: state_ok_def)
  with assms show ?thesis
    by (auto simp: handleLanguageChange_def state_ok_def)
qed

lemma handleVizTypeChange_ok:
  assumes "state_ok s" and "v \<in> vizTypes" and "handleVizTypeChange v s = Inr s'"
  shows "state_ok s'"
proof -
  from assms(1,2) obtain c where "sample (language s) v = Inr (Some c)"
    using sample_defined by (auto simp: state_ok_def)
  with assms show ?thesis
    by (auto simp: handleVizTypeChange_def state_ok_def)
qed

lemma handleCodeChange_ok: "state_ok s \<Longrightarrow> state_ok (handleCodeChange v s)"
  by (cases v) (simp_all add: handleCodeChange_def state_ok_def)

lemma generate_begin_ok: "state_ok s \<Longrightarrow> state_ok (generate_begin s)"
  by (simp add: generate_begin_def state_ok_def)

lemma generate_settle_ok: "state_ok s \<Longrightarrow> state_ok (generate_settle outcome s)"
  by (cases outcome) (simp_all add: generate_settle_def state_ok_def)

lemma post_request_contract: "state_ok s \<Longrightarrow> wire_contract (post_request s)"
  by (auto simp: state_ok_def wire_contract_def post_request_def)

lemma handlers_keep_display:
  "handleLanguageChange v s = Inr s' \<Longrightarrow> idle_or_cleared s \<Longrightarrow> idle_or_cleared s'"
  "handleVizTypeChange v s = Inr s' \<Longrightarrow> idle_or_cleared s \<Longrightarrow> idle_or_cleared s'"
  "idle_or_cleared s \<Longrightarrow> idle_or_cleared (handleCodeChange w s)"
  by (auto simp: handleLanguageChange_def handleVizTypeChange_def handleCodeChange_def
        idle_or_cleared_def split: sum.splits option.splits)

lemma generate_begin_cleared: "idle_or_cleared (generate_begin s)"
  by (simp add: generate_begin_def idle_or_cleared_def)

lemma generate_settle_display:
  assumes "error s = []" and "visualization s = []"
  shows "idle_or_cleared (generate_settle outcome s)"
  using assms by (cases outcome) (simp_all add: generate_settle_def idle_or_cleared_def)

lemma step_config_ok:
  assumes "config_ok c" and "step ev c = Some c'"
  shows "config_ok c'"
proof -
  obtain s sent where c: "c = (s, sent)" by (cases c)
  show ?thesis
  proof (cases ev)
    case (ChangeLanguage v)
    with assms c show ?thesis
      by (auto simp: menu_values split: if_splits sum.splits
            intro: handleLanguageChange_ok handlers_keep_display)
  next
    case (ChangeVizType v)
    with assms c show ?thesis
      by (auto simp: menu_values split: if_splits sum.splits
            intro: handleVizTypeChange_ok handlers_keep_display)
  next
    case (EditCode v)
    with assms c show ?thesis
      by (auto intro: handleCodeChange_ok handlers_keep_display)
  next
    case ClickGenerate
    with assms c show ?thesis
      by (auto simp: generate_begin_ok generate_begin_cleared post_request_contract
            split: if_splits)
  next
    case (RequestSettled outcome)
    with assms c show ?thesis
      by (auto simp: generate_settle_ok idle_or_cleared_def[of s]
            intro: generate_settle_display split: if_splits)
  qed
qed

lemma run_config_ok:
  "config_ok c \<Longrightarrow> run evs c = Some c' \<Longrightarrow> config_ok c'"
proof (induction evs arbitrary: c)
  case Nil
  then show ?case by simp
next
  case (Cons ev evs)
  then show ?case
    by (auto split: option.splits dest: step_config_ok)
qed

lemma initial_config_ok: "config_ok (initial_state, [])"
  by (simp add: initial_state_def state_ok_def idle_or_cleared_def languages_def vizTypes_def)

lemma reachable_ok:
  assumes "run evs (initial_state, []) = Some (s, sent)"
  shows "state_ok s" and "idle_or_cleared s" and "list_all wire_contract sent"
  using run_config_ok [OF initial_config_ok assms] by simp_all

lemma generateVisualization_requests:
  "fst (generateVisualization net s) = [post_request s]"
  by (simp add: generateVisualization_def Let_def)

lemma generateVisualization_state:
  "snd (generateVisualization net s) = generate_settle (net (post_request s)) (generate_begin s)"
  by (simp add: generateVisualization_def Let_def)

text \<open>
  A whole call is a click followed by the settling of the request: the two steps of a run
  give the state and the request of \<open>generateVisualization\<close>.
\<close>

lemma click_then_settle:
  assumes "\<not> loading s"
  shows "run [ClickGenerate, RequestSettled (net (post_request s))] (s, sent) =
         Some (snd (generateVisualization net s), sent @ fst (generateVisualization net s))"
  using assms
  by (simp add: render_def generateVisualization_requests generateVisualization_state
        generate_begin_def)

section \<open>Facts about the service\<close>


lemma base64_examples:
  "base64 ''Man'' = ''TWFu''" "base64 ''Ma'' = ''TWE=''" "base64 ''M'' = ''TQ==''"
  by (simp_all add: sextet_def)

subsection \<open>The lifetime of a request\<close>

lemma on_arrived_ok:
  assumes "lifecycle_ok st" and "phase st = Arrived"
  shows "lifecycle_ok (on_arrived cfg live req sig st)"
  using assms by (cases sig) (simp_all add: lifecycle_ok_def split: option.splits)

lemma on_admitted_ok:
  assumes "lifecycle_ok st" and "phase st = Admitted"
  shows "lifecycle_ok (on_admitted cfg sig st)"
  using assms by (cases sig) (simp_all add: lifecycle_ok_def)

lemma on_running_ok:
  assumes "lifecycle_ok st" and "phase st = Running"
  shows "lifecycle_ok (on_running cfg sig st)"
  using assms by (cases sig) (simp_all add: lifecycle_ok_def)

lemma on_cleaning_ok:
  assumes "lifecycle_ok st" and "phase st = Cleaning v"
  shows "lifecycle_ok (on_cleaning cfg v sig st)"
  using assms by (cases sig) (simp_all add: lifecycle_ok_def)

lemma react_ok: "lifecycle_ok st \<Longrightarrow> lifecycle_ok (react cfg live req sig st)"
  by (cases "phase st")
     (simp_all add: react_def on_arrived_ok on_admitted_ok on_running_ok on_cleaning_ok)

lemma drive_ok: "lifecycle_ok st \<Longrightarrow> lifecycle_ok (drive cfg live req sigs st)"
  by (induction sigs arbitrary: st) (simp_all add: react_ok)

lemma arrival_ok: "lifecycle_ok arrival"
  by (simp add: lifecycle_ok_def arrival_def)

lemma drive_append:
  "drive cfg live req (xs @ ys) st = drive cfg live req ys (drive cfg live req xs st)"
  by (induction xs arbitrary: st) simp_all

lemma deadline_stops: "stopping (react cfg live req Deadline st)"
  by (cases "phase st") (simp_all add: react_def stopping_def)

lemma turn_pending:
  assumes "stopping st"
  shows "stopping (react cfg live req Turn st)"
    and "pending (react cfg live req Turn st) = pending st - 1"
  using assms
  by (cases "phase st"; simp add: react_def stopping_def pending_def)+

lemma turns_finish:
  assumes "stopping st" and "pending st \<le> n"
  shows "phase (drive cfg live req (replicate n Turn) st) = Finished"
  using assms
proof (induction n arbitrary: st)
  case 0
  then show ?case
    by (cases "phase st") (simp_all add: pending_def)
next
  case (Suc n)
  have "stopping (react cfg live req Turn st)"
    and "pending (react cfg live req Turn st) \<le> n"
    using turn_pending [OF Suc.prems(1), of cfg live req] Suc.prems(2) by simp_all
  then show ?case using Suc.IH by simp
qed

lemma pending_bound: "pending st \<le> 4"
  by (cases "phase st") (simp_all add: pending_def)

lemma finished_clean:
  assumes "lifecycle_ok st" and "phase st = Finished"
  shows "\<exists>x. returned st = [x]" and "proc st \<noteq> Live" and "proc st \<noteq> Dead"
    and "\<not> scratch st" and "\<not> slot st"
  using assms by (simp_all add: lifecycle_ok_def length_Suc_conv)

lemma returned_only_finished:
  assumes "lifecycle_ok st" and "returned st \<noteq> []"
  shows "phase st = Finished"
  using assms by (cases "phase st") (simp_all add: lifecycle_ok_def)

lemma ok_bounds:
  assumes "lifecycle_ok st"
  shows "length (returned st) \<le> 1" and "spawns st \<le> 1"
    and "count_list (trace st) Spawned = spawns st"
  using assms by (cases "phase st"; simp add: lifecycle_ok_def)+

lemma schedule_invalid:
  assumes "validate cfg req = Some message"
  shows "returned (drive cfg live req (schedule fate) arrival) =
           [Failure ValidationError message]"
    and "trace (drive cfg live req (schedule fate) arrival) = []"
  using assms by (cases fate, simp_all add: react_def arrival_def) (cases fate, simp_all add: react_def arrival_def)

lemma schedule_at_capacity:
  assumes "validate cfg req = None" and "\<not> live < max_workers cfg"
  shows "returned (drive cfg live req (schedule fate) arrival) =
           [Failure ResourceExceeded (notice cfg ResourceExceeded)]"
    and "trace (drive cfg live req (schedule fate) arrival) = []"
  using assms by (cases fate, simp_all add: react_def arrival_def) (cases fate, simp_all add: react_def arrival_def)

lemma schedule_admitted:
  assumes "validate cfg req = None" and "live < max_workers cfg"
  shows "returned (drive cfg live req (schedule fate) arrival) = [snd (supervise cfg fate)]"
    and "trace (drive cfg live req (schedule fate) arrival) = fst (supervise cfg fate)"
  using assms by (cases fate, simp_all add: react_def arrival_def timeout_failure_def) (cases fate, simp_all add: react_def arrival_def timeout_failure_def)

lemma schedule_is_dispatch:
  "returned (drive cfg live req (schedule fate) arrival) = [snd (dispatch cfg live fate req)]"
  "trace (drive cfg live req (schedule fate) arrival) = fst (dispatch cfg live fate req)"
proof -
  show "returned (drive cfg live req (schedule fate) arrival) =
          [snd (dispatch cfg live fate req)]"
  proof (cases "validate cfg req")
    case None
    then show ?thesis
      using schedule_at_capacity(1) [of cfg req live fate]
        schedule_admitted(1) [of cfg req live fate]
      by (cases "live < max_workers cfg") (simp_all add: dispatch_def)
  next
    case (Some message)
    then show ?thesis
      using schedule_invalid(1) [of cfg req message live fate] by (simp add: dispatch_def)
  qed
  show "trace (drive cfg live req (schedule fate) arrival) = fst (dispatch cfg live fate req)"
  proof (cases "validate cfg req")
    case None
    then show ?thesis
      using schedule_at_capacity(2) [of cfg req live fate]
        schedule_admitted(2) [of cfg req live fate]
      by (cases "live < max_workers cfg") (simp_all add: dispatch_def)
  next
    case (Some message)
    then show ?thesis
      using schedule_invalid(2) [of cfg req message live fate] by (simp add: dispatch_def)
  qed
qed

lemma finished_absorbs:
  "phase st = Finished \<Longrightarrow> drive cfg live req sigs st = st"
  by (induction sigs) (simp_all add: react_def)

lemma deadline_then_turns:
  "phase (drive cfg live req (sigs @ [Deadline, Turn, Turn, Turn, Turn]) arrival) = Finished"
proof -
  let ?st = "react cfg live req Deadline (drive cfg live req sigs arrival)"
  have "stopping ?st" by (rule deadline_stops)
  then have "phase (drive cfg live req (replicate 4 Turn) ?st) = Finished"
    by (rule turns_finish) (rule pending_bound)
  moreover have "replicate 4 Turn = [Turn, Turn, Turn, Turn]"
    by (simp add: eval_nat_numeral)
  ultimately show ?thesis by (simp add: drive_append)
qed

section \<open>Claims about the client\<close>

text \<open>
  Claim C1. Every invocation of \<open>generateVisualization\<close> sends exactly one request: a POST
  to the endpoint \<open>/generate-visualization\<close> whose body has exactly the three fields
  \<open>code\<close> (the text the editor shows), \<open>language\<close> and \<open>viz_type\<close>, in the shape of
  the wire contract. The state \<open>s\<close> is any state a mounted component can be in, and
  \<open>net\<close> any behaviour of the network.
\<close>

theorem request_is_one_post_with_three_fields:
  assumes "run evs (initial_state, []) = Some (s, sent)"
  shows "\<exists>c. code s = Some c \<and> editor_value (render s) = Some c \<and>
           fst (generateVisualization net s) =
             [\<lparr>verb = ''POST'',
               url = ''http://localhost:8000'' @ ''/generate-visualization'',
               body = [(''code'', c), (''language'', language s), (''viz_type'', vizType s)]\<rparr>] \<and>
           wire_contract (post_request s)"
proof -
  from reachable_ok(1) [OF assms] obtain c where c: "code s = Some c"
    by (auto simp: state_ok_def)
  have "fst (generateVisualization net s) =
          [\<lparr>verb = ''POST'',
            url = ''http://localhost:8000'' @ ''/generate-visualization'',
            body = [(''code'', c), (''language'', language s), (''viz_type'', vizType s)]\<rparr>]"
    by (simp add: generateVisualization_requests post_request_def c)
  moreover have "editor_value (render s) = Some c"
    by (simp add: render_def c)
  moreover have "wire_contract (post_request s)"
    by (rule post_request_contract) (rule reachable_ok(1) [OF assms])
  ultimately show ?thesis using c by blast
qed

theorem request_is_one_post_with_three_fields_witness:
  "run [ChangeLanguage ''r'', EditCode (Some ''p <- 1'')] (initial_state, []) =
     Some (\<lparr>language = ''r'', vizType = ''static'', code = Some ''p <- 1'',
            visualization = [], visualizationType = [], error = [], loading = False\<rparr>, []) \<and>
   fst (generateVisualization (always (Resolved \<lparr>type = ''image'', content = ''iVBORw0KGgo=''\<rparr>))
          \<lparr>language = ''r'', vizType = ''static'', code = Some ''p <- 1'',
           visualization = [], visualizationType = [], error = [], loading = False\<rparr>) =
     [\<lparr>verb = ''POST'', url = ''http://localhost:8000/generate-visualization'',
       body = [(''code'', ''p <- 1''), (''language'', ''r''), (''viz_type'', ''static'')]\<rparr>]"
proof -
  let ?s = "\<lparr>language = ''r'', vizType = ''static'', code = Some ''p <- 1'',
             visualization = [], visualizationType = [], error = [], loading = False\<rparr>"
  have r: "run [ChangeLanguage ''r'', EditCode (Some ''p <- 1'')] (initial_state, []) =
             Some (?s, [])"
    by (simp add: initial_state_def render_def handleLanguageChange_def sample_simps
          handleCodeChange_def)
  from request_is_one_post_with_three_fields [OF r] r show ?thesis
    by simp
qed

text \<open>
  Claim C3. The component starts at (python, static), and in every run, whatever the
  menus, the editor, the button and the network do, the state keeps \<open>language\<close> in
  \<open>{python, r}\<close> and \<open>vizType\<close> in \<open>{static, interactive, 3d}\<close>, and so does every
  request sent: the menus offer no other value.
\<close>

theorem request_fields_stay_enumerated:
  assumes "run evs (initial_state, []) = Some (s, sent)"
  shows "mount = Inr initial_state \<and>
         language initial_state = ''python'' \<and> vizType initial_state = ''static'' \<and>
         language s \<in> {''python'', ''r''} \<and>
         vizType s \<in> {''static'', ''interactive'', ''3d''} \<and>
         (\<forall>r \<in> set sent.
            map_of (body r) ''language'' \<in> {Some ''python'', Some ''r''} \<and>
            map_of (body r) ''viz_type'' \<in>
              {Some ''static'', Some ''interactive'', Some ''3d''})"
proof -
  have "language s \<in> {''python'', ''r''}"
    and "vizType s \<in> {''static'', ''interactive'', ''3d''}"
    using reachable_ok(1) [OF assms] by (simp_all add: state_ok_def languages_def vizTypes_def)
  moreover have "\<forall>r \<in> set sent.
            map_of (body r) ''language'' \<in> {Some ''python'', Some ''r''} \<and>
            map_of (body r) ''viz_type'' \<in>
              {Some ''static'', Some ''interactive'', Some ''3d''}"
    using reachable_ok(3) [OF assms]
    by (auto simp: list_all_iff wire_contract_def languages_def vizTypes_def)
  moreover have "language initial_state = ''python''" and "vizType initial_state = ''static''"
    by (simp_all add: initial_state_def)
  ultimately show ?thesis using mount_initial by blast
qed

theorem request_fields_stay_enumerated_witness:
  "run [ChangeVizType ''3d'', ChangeLanguage ''r'', ClickGenerate] (initial_state, []) =
     Some (\<lparr>language = ''r'', vizType = ''3d'', code = Some r_3d,
            visualization = [], visualizationType = [], error = [], loading = True\<rparr>,
           [\<lparr>verb = ''POST'', url = ''http://localhost:8000/generate-visualization'',
             body = [(''code'', r_3d), (''language'', ''r''), (''viz_type'', ''3d'')]\<rparr>]) \<and>
   map_of [(''code'', r_3d), (''language'', ''r''), (''viz_type'', ''3d'')] ''language''
     \<in> {Some ''python'', Some ''r''} \<and>
   map_of [(''code'', r_3d), (''language'', ''r''), (''viz_type'', ''3d'')] ''viz_type''
     \<in> {Some ''static'', Some ''interactive'', Some ''3d''}"
proof -
  have r: "run [ChangeVizType ''3d'', ChangeLanguage ''r'', ClickGenerate] (initial_state, []) =
     Some (\<lparr>language = ''r'', vizType = ''3d'', code = Some r_3d,
            visualization = [], visualizationType = [], error = [], loading = True\<rparr>,
           [\<lparr>verb = ''POST'', url = ''http://localhost:8000/generate-visualization'',
             body = [(''code'', r_3d), (''language'', ''r''), (''viz_type'', ''3d'')]\<rparr>])"
    by (simp add: initial_state_def render_def handleLanguageChange_def
          handleVizTypeChange_def sample_simps generate_begin_def post_request_def)
  from request_fields_stay_enumerated [OF r] r show ?thesis
    by simp
qed

text \<open>
  Claim C8. The handler clears \<open>error\<close>, \<open>visualization\<close> and \<open>visualizationType\<close>
  before the request; the block that runs when the request settles changes at most one of
  \<open>error\<close> and \<open>visualization\<close>; so after a completed call at most one of the two is
  non-empty, from whatever state the call started, and the same holds in every state of
  every run of the component.
\<close>

theorem error_and_visualization_exclusive:
  "(error (generate_begin s) = [] \<and> visualization (generate_begin s) = [] \<and>
    visualizationType (generate_begin s) = []) \<and>
   (error (generate_settle outcome s) = error s \<or>
    visualization (generate_settle outcome s) = visualization s) \<and>
   (error (snd (generateVisualization net s)) = [] \<or>
    visualization (snd (generateVisualization net s)) = []) \<and>
   (run evs (initial_state, []) = Some (s', sent) \<longrightarrow> error s' = [] \<or> visualization s' = [])"
proof -
  have "error (generate_begin s) = [] \<and> visualization (generate_begin s) = [] \<and>
        visualizationType (generate_begin s) = []"
    by (simp add: generate_begin_def)
  moreover have "error (generate_settle outcome s) = error s \<or>
        visualization (generate_settle outcome s) = visualization s"
    by (cases outcome) (simp_all add: generate_settle_def)
  moreover have "error (snd (generateVisualization net s)) = [] \<or>
        visualization (snd (generateVisualization net s)) = []"
    using generate_settle_display [of "generate_begin s" "net (post_request s)"]
    by (simp add: generateVisualization_state generate_begin_def idle_or_cleared_def)
  moreover have "run evs (initial_state, []) = Some (s', sent) \<longrightarrow>
        error s' = [] \<or> visualization s' = []"
    using reachable_ok(2) [of evs s' sent] by (auto simp: idle_or_cleared_def)
  ultimately show ?thesis by blast
qed

theorem error_and_visualization_exclusive_witness:
  "run [ClickGenerate, RequestSettled (Resolved \<lparr>type = ''html'', content = ''<p>plot</p>''\<rparr>),
        ClickGenerate, RequestSettled (Rejected \<lparr>response = None\<rparr>)] (initial_state, []) =
     Some (initial_state\<lparr>error := ''An error occurred''\<rparr>,
           [post_request initial_state, post_request initial_state]) \<and>
   (error (initial_state\<lparr>error := ''An error occurred''\<rparr>) = [] \<or>
    visualization (initial_state\<lparr>error := ''An error occurred''\<rparr>) = [])"
proof -
  have r: "run [ClickGenerate, RequestSettled (Resolved \<lparr>type = ''html'', content = ''<p>plot</p>''\<rparr>),
        ClickGenerate, RequestSettled (Rejected \<lparr>response = None\<rparr>)] (initial_state, []) =
     Some (initial_state\<lparr>error := ''An error occurred''\<rparr>,
           [post_request initial_state, post_request initial_state])"
    by (simp add: initial_state_def render_def generate_begin_def generate_settle_def
          post_request_def err_detail_def js_or_def)
  from error_and_visualization_exclusive
         [of initial_state "Resolved \<lparr>type = ''html'', content = ''<p>plot</p>''\<rparr>"
             "always (Rejected \<lparr>response = None\<rparr>)"
             "[ClickGenerate, RequestSettled (Resolved \<lparr>type = ''html'', content = ''<p>plot</p>''\<rparr>),
               ClickGenerate, RequestSettled (Rejected \<lparr>response = None\<rparr>)]"
             "initial_state\<lparr>error := ''An error occurred''\<rparr>"
             "[post_request initial_state, post_request initial_state]"] r
  have "error (initial_state\<lparr>error := ''An error occurred''\<rparr>) = [] \<or>
        visualization (initial_state\<lparr>error := ''An error occurred''\<rparr>) = []"
    by blast
  with r show ?thesis by blast
qed

text \<open>
  Claim C9. A language change to a value of the menu replaces the editor text with
  \<open>SAMPLE_CODES[newLanguage][vizType]\<close> and a visualization-type change with
  \<open>SAMPLE_CODES[language][newType]\<close>: the handler returns, the new text is the sample,
  and it is the same whatever text \<open>typed\<close> the editor held before.
\<close>

theorem menu_change_replaces_code:
  "(newLanguage \<in> {''python'', ''r''} \<and> vizType s \<in> {''static'', ''interactive'', ''3d''} \<longrightarrow>
      (\<exists>c. sample newLanguage (vizType s) = Inr (Some c) \<and>
           (\<forall>typed. handleLanguageChange newLanguage (s\<lparr>code := typed\<rparr>) =
                     Inr (s\<lparr>language := newLanguage, code := Some c\<rparr>)))) \<and>
   (newType \<in> {''static'', ''interactive'', ''3d''} \<and> language s \<in> {''python'', ''r''} \<longrightarrow>
      (\<exists>c. sample (language s) newType = Inr (Some c) \<and>
           (\<forall>typed. handleVizTypeChange newType (s\<lparr>code := typed\<rparr>) =
                     Inr (s\<lparr>vizType := newType, code := Some c\<rparr>))))"
proof (intro conjI impI)
  assume "newLanguage \<in> {''python'', ''r''} \<and> vizType s \<in> {''static'', ''interactive'', ''3d''}"
  then obtain c where c: "sample newLanguage (vizType s) = Inr (Some c)"
    using sample_defined [of newLanguage "vizType s"] by (auto simp: languages_def vizTypes_def)
  then have "\<forall>typed. handleLanguageChange newLanguage (s\<lparr>code := typed\<rparr>) =
                     Inr (s\<lparr>language := newLanguage, code := Some c\<rparr>)"
    by (simp add: handleLanguageChange_def)
  with c show "\<exists>c. sample newLanguage (vizType s) = Inr (Some c) \<and>
           (\<forall>typed. handleLanguageChange newLanguage (s\<lparr>code := typed\<rparr>) =
                     Inr (s\<lparr>language := newLanguage, code := Some c\<rparr>))" by blast
next
  assume "newType \<in> {''static'', ''interactive'', ''3d''} \<and> language s \<in> {''python'', ''r''}"
  then obtain c where c: "sample (language s) newType = Inr (Some c)"
    using sample_defined [of "language s" newType] by (auto simp: languages_def vizTypes_def)
  then have "\<forall>typed. handleVizTypeChange newType (s\<lparr>code := typed\<rparr>) =
                     Inr (s\<lparr>vizType := newType, code := Some c\<rparr>)"
    by (simp add: handleVizTypeChange_def)
  with c show "\<exists>c. sample (language s) newType = Inr (Some c) \<and>
           (\<forall>typed. handleVizTypeChange newType (s\<lparr>code := typed\<rparr>) =
                     Inr (s\<lparr>vizType := newType, code := Some c\<rparr>))" by blast
qed

theorem menu_change_replaces_code_witness:
  "handleLanguageChange ''r'' (initial_state\<lparr>code := Some ''print(1)''\<rparr>) =
     Inr (initial_state\<lparr>language := ''r'', code := Some r_static\<rparr>) \<and>
   handleVizTypeChange ''3d'' (initial_state\<lparr>code := Some ''print(1)''\<rparr>) =
     Inr (initial_state\<lparr>vizType := ''3d'', code := Some python_3d\<rparr>)"
  using menu_change_replaces_code [of "''r''" initial_state "''3d''"]
  by (simp add: initial_state_def sample_simps)

text \<open>
  Claim C10. When the request throws and the error carries no \<open>response.data.detail\<close>
  (any of the three links missing), the message shown is exactly "An error occurred"; and
  after every outcome, thrown or not, \<open>loading\<close> is false again and the button is enabled.
\<close>

theorem fallback_message_and_loading_reset:
  "(err_detail err = None \<longrightarrow>
      error (snd (generateVisualization (always (Rejected err)) s)) = ''An error occurred'' \<and>
      error_message (render (snd (generateVisualization (always (Rejected err)) s))) =
        Some ''An error occurred'') \<and>
   loading (generate_begin s) \<and>
   \<not> loading (generate_settle outcome s) \<and>
   \<not> loading (snd (generateVisualization net s)) \<and>
   \<not> button_disabled (render (snd (generateVisualization net s)))"
  by (cases outcome; cases "net (post_request s)")
     (simp_all add: generateVisualization_state generate_settle_def generate_begin_def
        render_def always_def js_or_def)

theorem fallback_message_and_loading_reset_witness:
  "err_detail \<lparr>response = Some \<lparr>data = None\<rparr>\<rparr> = None \<and>
   error_message (render (snd (generateVisualization
       (always (Rejected \<lparr>response = Some \<lparr>data = None\<rparr>\<rparr>)) initial_state))) =
     Some ''An error occurred'' \<and>
   \<not> button_disabled (render (snd (generateVisualization
       (always (Rejected \<lparr>response = Some \<lparr>data = None\<rparr>\<rparr>)) initial_state)))"
  using fallback_message_and_loading_reset
          [of "\<lparr>response = Some \<lparr>data = None\<rparr>\<rparr>" initial_state _
              "always (Rejected \<lparr>response = Some \<lparr>data = None\<rparr>\<rparr>)"]
  by (simp add: err_detail_def)

text \<open>
  Claim C2. For every success response of the wire contract (a type and a content that is
  base64 image bytes or a complete document, hence not empty), whatever the state and the
  network: type "image" is drawn as an image element whose source is
  \<open>data:image/png;base64,\<close> followed by the content, type "html" as an inline frame
  with the content as \<open>srcDoc\<close> and a sandbox attribute, in both cases with no error
  message; and nothing else is ever drawn for a resolved response.
\<close>
theorem success_response_rendered:
  assumes "net (post_request s) = Resolved r" and "content r \<noteq> []"
  shows "(type r = ''image'' \<longrightarrow>
            visualization_panel (render (snd (generateVisualization net s))) =
              Some (Img (''data:image/png;base64,'' @ content r) ''Visualization'') \<and>
            error_message (render (snd (generateVisualization net s))) = None) \<and>
         (type r = ''html'' \<longrightarrow>
            visualization_panel (render (snd (generateVisualization net s))) =
              Some (IFrame (content r) ''allow-scripts allow-same-origin allow-popups'') \<and>
            error_message (render (snd (generateVisualization net s))) = None) \<and>
         (\<forall>e. visualization_panel (render (snd (generateVisualization net s))) = Some e \<longrightarrow>
              type r = ''image'' \<and>
                e = Img (''data:image/png;base64,'' @ content r) ''Visualization'' \<or>
              type r = ''html'' \<and>
                e = IFrame (content r) ''allow-scripts allow-same-origin allow-popups'')"
  using assms
  by (simp add: generateVisualization_state generate_settle_def generate_begin_def
        render_def)

theorem success_response_rendered_witness:
  "visualization_panel
     (render (snd (generateVisualization
        (always (Resolved \<lparr>type = ''html'', content = ''<p>plot</p>''\<rparr>)) initial_state))) =
   Some (IFrame ''<p>plot</p>'' ''allow-scripts allow-same-origin allow-popups'') \<and>
   visualization_panel
     (render (snd (generateVisualization
        (always (Resolved \<lparr>type = ''image'', content = ''TWFu''\<rparr>)) initial_state))) =
   Some (Img ''data:image/png;base64,TWFu'' ''Visualization'')"
proof -
  let ?h = "\<lparr>type = ''html'', content = ''<p>plot</p>''\<rparr>"
  let ?i = "\<lparr>type = ''image'', content = ''TWFu''\<rparr>"
  have h: "always (Resolved ?h) (post_request initial_state) = Resolved ?h"
    and i: "always (Resolved ?i) (post_request initial_state) = Resolved ?i"
    by (simp_all add: always_def)
  have ch: "content ?h \<noteq> []" and ci: "content ?i \<noteq> []"
    by simp_all
  have th: "type ?h = ''html''" and ti: "type ?i = ''image''"
    by simp_all
  note rh = success_response_rendered
              [where net = "always (Resolved ?h)" and s = initial_state and r = ?h, OF h ch]
  note ri = success_response_rendered
              [where net = "always (Resolved ?i)" and s = initial_state and r = ?i, OF i ci]
  have "visualization_panel
          (render (snd (generateVisualization (always (Resolved ?h)) initial_state))) =
        Some (IFrame (content ?h) ''allow-scripts allow-same-origin allow-popups'')"
    using rh [THEN conjunct2, THEN conjunct1, THEN mp, OF th] by (rule conjunct1)
  moreover have "visualization_panel
          (render (snd (generateVisualization (always (Resolved ?i)) initial_state))) =
        Some (Img (''data:image/png;base64,'' @ content ?i) ''Visualization'')"
    using ri [THEN conjunct1, THEN mp, OF ti] by (rule conjunct1)
  ultimately show ?thesis by simp
qed

text \<open>
  Claim C4 as stated fails for a failure response whose \<open>detail\<close> is the empty string:
  \<open>detail || 'An error occurred'\<close> takes the fallback, so the message shown is not the
  detail.
\<close>

theorem empty_detail_shows_fallback:
  "error_message
     (render (snd (generateVisualization
        (always (Rejected \<lparr>response = Some \<lparr>data = Some \<lparr>detail = Some []\<rparr>\<rparr>\<rparr>))
        initial_state))) = Some ''An error occurred''"
  by (simp add: generateVisualization_state generate_settle_def generate_begin_def
        render_def always_def err_detail_def js_or_def)

text \<open>
  Claim C4, amended. For every failure response whose body carries a \<open>detail\<close> string,
  the client shows that string as its error message when it is non-empty, and the fallback
  "An error occurred" when it is empty; no visualization is drawn.
\<close>

theorem failure_detail_displayed:
  assumes "response err = Some r" and "data r = Some d" and "detail d = Some m"
  shows "error_message (render (snd (generateVisualization (always (Rejected err)) s))) =
           Some (if m = [] then ''An error occurred'' else m) \<and>
         visualization_panel (render (snd (generateVisualization (always (Rejected err)) s))) =
           None"
  using assms
  by (simp add: generateVisualization_state generate_settle_def generate_begin_def
        render_def always_def err_detail_def js_or_def)

theorem failure_detail_displayed_witness:
  "error_message
     (render (snd (generateVisualization
        (always (Rejected \<lparr>response = Some \<lparr>data = Some \<lparr>detail = Some ''Unsupported language''\<rparr>\<rparr>\<rparr>))
        initial_state))) = Some ''Unsupported language''"
  using failure_detail_displayed
          [of "\<lparr>response = Some \<lparr>data = Some \<lparr>detail = Some ''Unsupported language''\<rparr>\<rparr>\<rparr>"
              "\<lparr>data = Some \<lparr>detail = Some ''Unsupported language''\<rparr>\<rparr>"
              "\<lparr>detail = Some ''Unsupported language''\<rparr>" "''Unsupported language''"
              initial_state]
  by simp

section \<open>Claims about the service\<close>

text \<open>
  Claim C5. When a run that was admitted and exited cleanly (status 0, no error trace)
  left the "no artifact" sentinel, the result is a failure of kind \<open>NoOutput\<close> with the
  message "No visualization was generated"; it goes out as a failure response with that
  \<open>detail\<close>, not as a success, and the client shows it. The client also produces the
  same message itself for a resolved response whose type is neither "image" nor "html".
\<close>

theorem no_artifact_is_NoOutput_failure:
  assumes "validate cfg req = None" and "live < max_workers cfg"
    and "exit_status raw = 0" and "\<not> is_error_trace cfg (diagnostics raw)"
    and "artifact raw = NoArtifactSentinel"
  shows "snd (dispatch cfg live (Exited raw) req) =
           Failure NoOutput ''No visualization was generated'' \<and>
         respond (snd (dispatch cfg live (Exited raw) req)) =
           FailureReply ClientError4xx ''No visualization was generated'' \<and>
         error_message (render (snd (generateVisualization
             (always (deliver (respond (snd (dispatch cfg live (Exited raw) req))))) s))) =
           Some ''No visualization was generated'' \<and>
         (type r \<noteq> ''image'' \<and> type r \<noteq> ''html'' \<longrightarrow>
            error (snd (generateVisualization (always (Resolved r)) s)) =
              ''No visualization was generated'')"
proof -
  have d: "snd (dispatch cfg live (Exited raw) req) =
           Failure NoOutput ''No visualization was generated''"
    using assms by (simp add: dispatch_def normalize_def)
  have "error_message (render (snd (generateVisualization
          (always (deliver (respond (Failure NoOutput ''No visualization was generated'')))) s))) =
        Some ''No visualization was generated''"
    by (simp add: generateVisualization_state generate_settle_def generate_begin_def
          render_def always_def err_detail_def js_or_def)
  moreover have "type r \<noteq> ''image'' \<and> type r \<noteq> ''html'' \<longrightarrow>
            error (snd (generateVisualization (always (Resolved r)) s)) =
              ''No visualization was generated''"
    by (simp add: generateVisualization_state generate_settle_def always_def)
  ultimately show ?thesis by (simp add: d)
qed

theorem no_artifact_is_NoOutput_failure_witness:
  "snd (dispatch small_config 0
          (Exited \<lparr>artifact = NoArtifactSentinel, diagnostics = ''42'', exit_status = 0\<rparr>)
          \<lparr>request_code = ''print(6 * 7)'', request_language = ''python'',
           request_vizType = ''static''\<rparr>) =
     Failure NoOutput ''No visualization was generated'' \<and>
   error_message (render (snd (generateVisualization
       (always (deliver (respond (snd (dispatch small_config 0
          (Exited \<lparr>artifact = NoArtifactSentinel, diagnostics = ''42'', exit_status = 0\<rparr>)
          \<lparr>request_code = ''print(6 * 7)'', request_language = ''python'',
           request_vizType = ''static''\<rparr>))))) initial_state))) =
     Some ''No visualization was generated''"
proof -
  have v: "validate small_config
             \<lparr>request_code = ''print(6 * 7)'', request_language = ''python'',
              request_vizType = ''static''\<rparr> = None"
    by (simp add: validate_def small_config_def languages_def vizTypes_def)
  have w: "0 < max_workers small_config"
    by (simp add: small_config_def)
  have x: "exit_status \<lparr>artifact = NoArtifactSentinel, diagnostics = ''42'', exit_status = 0\<rparr> = 0"
    by simp
  have e: "\<not> is_error_trace small_config
             (diagnostics \<lparr>artifact = NoArtifactSentinel, diagnostics = ''42'', exit_status = 0\<rparr>)"
    by (simp add: small_config_def trace_prefix_def)
  have a: "artifact \<lparr>artifact = NoArtifactSentinel, diagnostics = ''42'', exit_status = 0\<rparr> =
             NoArtifactSentinel"
    by simp
  from no_artifact_is_NoOutput_failure [OF v w x e a, where s = initial_state]
  show ?thesis by blast
qed

text \<open>
  Claim C6. Whatever happens while a request is served, in whatever order (the worker
  exiting or crashing, the ceilings, the deadline firing during any stage, spurious
  repeats): at most one result is ever handed back and at most one process is ever
  spawned; when a result has been handed back the process is dead and reaped, the scratch
  directory removed and the slot released, and nothing that happens later changes
  anything; once the deadline has fired and the dispatcher has had four turns, exactly one
  result has been handed back; and when nothing races, that result and the events are
  those of \<open>dispatch\<close>. A result is an artifact or a failure by its type.
\<close>
theorem every_request_one_result_one_process:
  "(length (returned (drive cfg live req sigs arrival)) \<le> 1 \<and>
    spawns (drive cfg live req sigs arrival) \<le> 1 \<and>
    count_list (trace (drive cfg live req sigs arrival)) Spawned =
      spawns (drive cfg live req sigs arrival) \<and>
    (returned (drive cfg live req sigs arrival) \<noteq> [] \<longrightarrow>
       proc (drive cfg live req sigs arrival) \<noteq> Live \<and>
       proc (drive cfg live req sigs arrival) \<noteq> Dead \<and>
       \<not> scratch (drive cfg live req sigs arrival) \<and>
       \<not> slot (drive cfg live req sigs arrival) \<and>
       drive cfg live req (sigs @ later) arrival = drive cfg live req sigs arrival)) \<and>
   ((\<exists>x. returned (drive cfg live req (sigs @ [Deadline, Turn, Turn, Turn, Turn]) arrival) =
          [x]) \<and>
    proc (drive cfg live req (sigs @ [Deadline, Turn, Turn, Turn, Turn]) arrival) \<noteq> Live \<and>
    proc (drive cfg live req (sigs @ [Deadline, Turn, Turn, Turn, Turn]) arrival) \<noteq> Dead \<and>
    \<not> scratch (drive cfg live req (sigs @ [Deadline, Turn, Turn, Turn, Turn]) arrival) \<and>
    \<not> slot (drive cfg live req (sigs @ [Deadline, Turn, Turn, Turn, Turn]) arrival)) \<and>
   (returned (drive cfg live req (schedule fate) arrival) =
      [snd (dispatch cfg live fate req)] \<and>
    trace (drive cfg live req (schedule fate) arrival) = fst (dispatch cfg live fate req))"
proof -
  let ?st = "drive cfg live req sigs arrival"
  let ?fin = "drive cfg live req (sigs @ [Deadline, Turn, Turn, Turn, Turn]) arrival"
  have ok: "lifecycle_ok ?st" and okf: "lifecycle_ok ?fin"
    by (rule drive_ok [OF arrival_ok])+
  have safe: "length (returned ?st) \<le> 1 \<and> spawns ?st \<le> 1 \<and>
        count_list (trace ?st) Spawned = spawns ?st"
    using ok_bounds [OF ok] by simp
  have clean: "returned ?st \<noteq> [] \<longrightarrow>
        proc ?st \<noteq> Live \<and> proc ?st \<noteq> Dead \<and> \<not> scratch ?st \<and> \<not> slot ?st \<and>
        drive cfg live req (sigs @ later) arrival = ?st"
  proof
    assume "returned ?st \<noteq> []"
    then have f: "phase ?st = Finished"
      by (rule returned_only_finished [OF ok])
    have "drive cfg live req (sigs @ later) arrival = ?st"
      using finished_absorbs [OF f] by (simp add: drive_append)
    then show "proc ?st \<noteq> Live \<and> proc ?st \<noteq> Dead \<and> \<not> scratch ?st \<and> \<not> slot ?st \<and>
        drive cfg live req (sigs @ later) arrival = ?st"
      using finished_clean(2-5) [OF ok f] by simp
  qed
  have ff: "phase ?fin = Finished"
    by (rule deadline_then_turns)
  have live: "(\<exists>x. returned ?fin = [x]) \<and> proc ?fin \<noteq> Live \<and> proc ?fin \<noteq> Dead \<and>
        \<not> scratch ?fin \<and> \<not> slot ?fin"
    using finished_clean [OF okf ff] by simp
  show ?thesis
    using safe clean live schedule_is_dispatch [of cfg live req fate] by simp
qed

theorem every_request_one_result_one_process_witness:
  "returned (drive small_config 0
      \<lparr>request_code = ''plt.plot(x, y)'', request_language = ''python'',
       request_vizType = ''static''\<rparr>
      [Turn, SpawnOk, WallClock,
       ProcessExit \<lparr>artifact = ImageBytes ''Man'', diagnostics = [], exit_status = 0\<rparr>,
       Turn, Deadline, Turn, Turn, SpawnOk, Turn] arrival) =
     [Failure ExecutionTimeout ''Execution timed out''] \<and>
   spawns (drive small_config 0
      \<lparr>request_code = ''plt.plot(x, y)'', request_language = ''python'',
       request_vizType = ''static''\<rparr>
      [Turn, SpawnOk, WallClock,
       ProcessExit \<lparr>artifact = ImageBytes ''Man'', diagnostics = [], exit_status = 0\<rparr>,
       Turn, Deadline, Turn, Turn, SpawnOk, Turn] arrival) = 1 \<and>
   proc (drive small_config 0
      \<lparr>request_code = ''plt.plot(x, y)'', request_language = ''python'',
       request_vizType = ''static''\<rparr>
      [Turn, SpawnOk, WallClock,
       ProcessExit \<lparr>artifact = ImageBytes ''Man'', diagnostics = [], exit_status = 0\<rparr>,
       Turn, Deadline, Turn, Turn, SpawnOk, Turn] arrival) = Gone \<and>
   returned (drive small_config 0
      \<lparr>request_code = ''plt.plot(x, y)'', request_language = ''python'',
       request_vizType = ''static''\<rparr>
      (schedule (Exited \<lparr>artifact = ImageBytes ''Man'', diagnostics = [], exit_status = 0\<rparr>))
      arrival) = [Artifact Image ''TWFu'']"
proof -
  have v: "validate small_config
             \<lparr>request_code = ''plt.plot(x, y)'', request_language = ''python'',
              request_vizType = ''static''\<rparr> = None"
    by (simp add: validate_def small_config_def languages_def vizTypes_def)
  have w: "0 < max_workers small_config" and n: "notice small_config = plain_notice"
    by (simp_all add: small_config_def)
  have d: "dispatch small_config 0
      (Exited \<lparr>artifact = ImageBytes ''Man'', diagnostics = [], exit_status = 0\<rparr>)
      \<lparr>request_code = ''plt.plot(x, y)'', request_language = ''python'',
       request_vizType = ''static''\<rparr> =
     ([SlotTaken, Spawned, Reaped, ScratchRemoved, SlotReleased], Artifact Image ''TWFu'')"
    using v by (simp add: dispatch_def small_config_def normalize_def trace_prefix_def
          sextet_def)
  from every_request_one_result_one_process
         [of small_config 0
             "\<lparr>request_code = ''plt.plot(x, y)'', request_language = ''python'',
               request_vizType = ''static''\<rparr>"
             "[Turn, SpawnOk, WallClock,
               ProcessExit \<lparr>artifact = ImageBytes ''Man'', diagnostics = [], exit_status = 0\<rparr>,
               Turn, Deadline, Turn, Turn, SpawnOk, Turn]" "[]"
             "Exited \<lparr>artifact = ImageBytes ''Man'', diagnostics = [], exit_status = 0\<rparr>"]
  show ?thesis
    using v w n d
    by (simp add: react_def arrival_def timeout_failure_def)
qed



end
